theory Spec2Isabelle
  imports Complex_Main
begin

section \<open>Python strings and lists\<close>

text \<open>
  Strings are lists of characters. The one-byte characters stand for the code points
  0..255 of a Python \<open>str\<close>; \<open>is_space\<close> lists the code points below 256 that
  \<open>str.isspace\<close> accepts, which are the ones \<open>str.strip()\<close> and \<open>str.split()\<close>
  treat as white space.
\<close>

definition is_space :: "char \<Rightarrow> bool" where
  "is_space c \<longleftrightarrow> c \<in> set [CHR 0x09, CHR 0x0A, CHR 0x0B, CHR 0x0C, CHR 0x0D,
     CHR 0x1C, CHR 0x1D, CHR 0x1E, CHR 0x1F, CHR 0x20, CHR 0x85, CHR 0xA0]"

text \<open>\<open>s.strip()\<close>\<close>

definition strip :: "string \<Rightarrow> string" where
  "strip s = rev (dropWhile is_space (rev (dropWhile is_space s)))"

text \<open>\<open>s.split()\<close> with no separator: the maximal runs of characters that are not white
  space. \<open>split_acc\<close> carries the current word, reversed.\<close>

fun split_acc :: "string \<Rightarrow> string \<Rightarrow> string list" where
  "split_acc cur [] = (if cur = [] then [] else [rev cur])"
| "split_acc cur (c # cs) =
     (if is_space c
      then (if cur = [] then split_acc [] cs else rev cur # split_acc [] cs)
      else split_acc (c # cur) cs)"

definition split_ws :: "string \<Rightarrow> string list" where
  "split_ws s = split_acc [] s"

text \<open>\<open>sep.join(xs)\<close>\<close>

fun join :: "string \<Rightarrow> string list \<Rightarrow> string" where
  "join sep [] = []"
| "join sep [x] = x"
| "join sep (x # y # ys) = x @ sep @ join sep (y # ys)"

text \<open>\<open>s.startswith(p)\<close> and \<open>p in s\<close>\<close>

fun starts_with :: "string \<Rightarrow> string \<Rightarrow> bool" where
  "starts_with [] s = True"
| "starts_with (p # ps) [] = False"
| "starts_with (p # ps) (c # cs) = (p = c \<and> starts_with ps cs)"

fun contains :: "string \<Rightarrow> string \<Rightarrow> bool" where
  "contains sub [] = (sub = [])"
| "contains sub (c # cs) = (starts_with sub (c # cs) \<or> contains sub cs)"

text \<open>The leftmost occurrence of a non-empty separator: the text before it and the text
  after it, or \<open>None\<close> when the separator does not occur.\<close>

fun split_once :: "string \<Rightarrow> string \<Rightarrow> (string \<times> string) option" where
  "split_once sep [] = None"
| "split_once sep (c # cs) =
     (if starts_with sep (c # cs) then Some ([], drop (length sep) (c # cs))
      else map_option (\<lambda>(a, b). (c # a, b)) (split_once sep cs))"

text \<open>\<open>s.split(sep, 1)[-1]\<close>: the text after the first separator, the whole string when
  there is none. \<open>s.split(sep)[0]\<close>: the text before the first separator, the whole
  string when there is none.\<close>

definition after_first :: "string \<Rightarrow> string \<Rightarrow> string" where
  "after_first sep s = (case split_once sep s of None \<Rightarrow> s | Some (a, b) \<Rightarrow> b)"

definition before_first :: "string \<Rightarrow> string \<Rightarrow> string" where
  "before_first sep s = (case split_once sep s of None \<Rightarrow> s | Some (a, b) \<Rightarrow> a)"

text \<open>\<open>range(n)\<close> for an integer \<open>n\<close> (empty when \<open>n \<le> 0\<close>), and the slice
  \<open>xs[:n]\<close>, where a negative \<open>n\<close> counts from the end.\<close>

definition py_range :: "int \<Rightarrow> int list" where
  "py_range n = map int [0..<nat n]"

definition slice_to :: "int \<Rightarrow> 'a list \<Rightarrow> 'a list" where
  "slice_to n xs = (if 0 \<le> n then take (nat n) xs else take (nat (int (length xs) + n)) xs)"

text \<open>\<open>str(n)\<close> for a natural number: its decimal digits.\<close>

definition digit_char :: "nat \<Rightarrow> char" where
  "digit_char d = char_of (48 + d)"

fun str_nat :: "nat \<Rightarrow> string" where
  "str_nat n = (if n < 10 then [digit_char n] else str_nat (n div 10) @ [digit_char (n mod 10)])"

declare str_nat.simps [simp del]

section \<open>Exceptions\<close>

datatype exn = ValueError string | AttributeError string | Exception string

text \<open>\<open>str(e)\<close>\<close>

fun str_exn :: "exn \<Rightarrow> string" where
  "str_exn (ValueError m) = m"
| "str_exn (AttributeError m) = m"
| "str_exn (Exception m) = m"

section \<open>Media files as the decoding libraries see them\<close>

text \<open>
  A frame is its pixel data, an audio waveform its samples. \<open>media\<close> is what
  \<open>cv2.VideoCapture\<close> and \<open>VideoFileClip\<close> report for the file at a path:
  whether the capture opened, \<open>CAP_PROP_FRAME_COUNT\<close>, the outcome of seeking to a
  position and reading (\<open>None\<close> when \<open>cap.read()\<close> returns \<open>ret = False\<close>), and
  the audio track.
\<close>

type_synonym frame = "nat list"
type_synonym samples = "real list"

datatype audio_track =
    NoAudioTrack
  | AudioRaises exn
  | AudioData samples int

record media =
  isOpened :: bool
  frame_count :: int
  read_at :: "nat \<Rightarrow> frame option"
  audio :: audio_track

section \<open>The video processor (video\_processor.py)\<close>

text \<open>
  The models and clients held by a \<open>VideoProcessor\<close>. Each model is the outcome of
  calling it: \<open>Inl\<close> when the call raises. One OCR detection is the triple
  (bounding box, text, confidence) of \<open>readtext\<close>. A generation client is \<open>None\<close>
  when it was not configured; otherwise it holds the outcome of the single request
  \<open>generate_summary\<close> sends to it. The prompt of that request (context block, style
  and format templates, the profile block built from the profile's expertise and focus
  tags) only decides what the external provider answers, so the answer itself is the
  model's input.
\<close>

type_synonym bbox = "(int \<times> int) list"
type_synonym detection = "bbox \<times> string \<times> real"

record VideoProcessor =
  blip_model :: "frame \<Rightarrow> exn + string"
  whisper_model :: "samples \<Rightarrow> int \<Rightarrow> exn + string"
  ocr_reader :: "frame \<Rightarrow> exn + detection list"
  groq_client :: "(exn + string) option"
  gemini_model :: "(exn + string) option"

subsection \<open>extract\_keyframes\<close>

text \<open>
  The positions \<open>frame_indices\<close> of the source. In the second branch
  \<open>int(i * total_frames / num_frames)\<close> is computed on \<open>0 \<le> i\<close>,
  \<open>0 < num_frames \<le> total_frames\<close>, where truncation is the floor; the quotient is
  taken exactly (the source's float division agrees with it as long as the product is
  below \<open>2^53\<close>).
\<close>

definition frame_indices :: "int \<Rightarrow> int \<Rightarrow> int list" where
  "frame_indices total_frames num_frames =
     (if total_frames < num_frames then py_range total_frames
      else map (\<lambda>i. (i * total_frames) div num_frames) (py_range num_frames))"

definition extract_keyframes :: "(string \<Rightarrow> media) \<Rightarrow> string \<Rightarrow> int \<Rightarrow> exn + frame list" where
  "extract_keyframes VideoCapture video_path num_frames =
     (let cap = VideoCapture video_path in
      if \<not> isOpened cap then Inl (ValueError (''Could not open video: '' @ video_path))
      else Inr (List.map_filter (\<lambda>idx. read_at cap (nat idx))
                  (frame_indices (frame_count cap) num_frames)))"

subsection \<open>extract\_text\_from\_frame\<close>

definition extract_text_from_frame :: "VideoProcessor \<Rightarrow> frame \<Rightarrow> string list" where
  "extract_text_from_frame self frame =
     (case ocr_reader self frame of
        Inl e \<Rightarrow> []
      | Inr results \<Rightarrow> map (\<lambda>text. fst (snd text)) (filter (\<lambda>text. snd (snd text) > 0.5) results))"

subsection \<open>extract\_audio and transcribe\_audio\<close>

text \<open>Every exception inside \<open>extract_audio\<close> is caught and gives \<open>(None, None)\<close>,
  as a missing audio track does.\<close>

definition extract_audio :: "(string \<Rightarrow> media) \<Rightarrow> string \<Rightarrow> (samples \<times> int) option" where
  "extract_audio VideoFileClip video_path =
     (case audio (VideoFileClip video_path) of
        NoAudioTrack \<Rightarrow> None
      | AudioRaises e \<Rightarrow> None
      | AudioData audio_data sample_rate \<Rightarrow> Some (audio_data, sample_rate))"

definition transcribe_audio :: "VideoProcessor \<Rightarrow> samples option \<Rightarrow> int \<Rightarrow> string" where
  "transcribe_audio self audio_data sample_rate =
     (case audio_data of
        None \<Rightarrow> ''No audio content detected.''
      | Some d \<Rightarrow>
          if length d = 0 then ''No audio content detected.''
          else (case whisper_model self d sample_rate of
                  Inl e \<Rightarrow> ''Audio transcription failed.''
                | Inr transcription \<Rightarrow>
                    if strip transcription \<noteq> [] then strip transcription
                    else ''No speech detected in audio.''))"

subsection \<open>caption\_frame and analyze\_visual\_content\<close>

definition caption_frame :: "VideoProcessor \<Rightarrow> frame \<Rightarrow> string" where
  "caption_frame self frame =
     (case blip_model self frame of
        Inl e \<Rightarrow> ''Unable to describe this frame.''
      | Inr caption \<Rightarrow> caption)"

record visual_analysis =
  frame_captions :: "string list"
  ocr_texts :: "string list"
  visual_summary :: string

text \<open>The loop over \<open>enumerate(frames)\<close>, started at index \<open>i\<close>: the captions and the
  on-screen texts it appends.\<close>

fun analyze_frames :: "VideoProcessor \<Rightarrow> nat \<Rightarrow> frame list \<Rightarrow> string list \<times> string list" where
  "analyze_frames self i [] = ([], [])"
| "analyze_frames self i (frame # frames) =
     (let caption = caption_frame self frame;
          labelled = ''Frame '' @ str_nat (i + 1) @ '': '' @ caption;
          texts = extract_text_from_frame self frame;
          entry = (if texts \<noteq> [] then labelled @ '' | On-screen text: '' @ join '', '' texts
                   else labelled);
          (captions, all_texts) = analyze_frames self (i + 1) frames
      in (entry # captions, texts @ all_texts))"

definition analyze_visual_content :: "VideoProcessor \<Rightarrow> frame list \<Rightarrow> visual_analysis" where
  "analyze_visual_content self frames =
     (let (captions, all_texts) = analyze_frames self 0 frames
      in \<lparr>frame_captions = captions, ocr_texts = all_texts,
          visual_summary = join [CHR 0x0A] captions\<rparr>)"

subsection \<open>generate\_summary\<close>

text \<open>The scene descriptions collected from the frame captions.\<close>

definition visual_scenes :: "string list \<Rightarrow> string list" where
  "visual_scenes captions =
     map (\<lambda>caption.
            let scene_desc = after_first '': '' caption;
                scene_desc = (if contains '' | On-screen text:'' scene_desc
                              then before_first '' | On-screen text:'' scene_desc
                              else scene_desc)
            in strip scene_desc)
         (filter (contains '': '') captions)"

text \<open>\<open>not summary\<close> for a summary that is \<open>None\<close> or a string.\<close>

definition not_summary :: "string option \<Rightarrow> bool" where
  "not_summary summary \<longleftrightarrow> summary = None \<or> summary = Some []"

text \<open>Lines 380-406: Groq, then Gemini when Groq left no summary.\<close>

definition try_providers :: "VideoProcessor \<Rightarrow> string option" where
  "try_providers self =
     (let summary = (case groq_client self of
                       None \<Rightarrow> None
                     | Some (Inl e) \<Rightarrow> None
                     | Some (Inr content) \<Rightarrow> Some (strip content))
      in if not_summary summary \<and> gemini_model self \<noteq> None
         then (case gemini_model self of
                 Some (Inr text) \<Rightarrow> Some (strip text)
               | _ \<Rightarrow> summary)
         else summary)"

text \<open>Lines 408-413: the templated summary.\<close>

definition fallback_summary :: "string \<Rightarrow> string list \<Rightarrow> string" where
  "fallback_summary audio_transcription scenes =
     ''This video contains: ''
       @ (if audio_transcription \<noteq> [] then take 200 audio_transcription else ''visual content'')
       @ ''. ''
       @ (if scenes \<noteq> [] then ''Key scenes include: '' @ join '', '' (take 3 scenes) @ ''.''
          else [])"

text \<open>Lines 415-420: the trim to the requested number of words. \<open>None\<close> and \<open>0\<close> are
  both false in \<open>if summary_length_words and summary\<close>.\<close>

definition trim_summary :: "int option \<Rightarrow> string \<Rightarrow> string" where
  "trim_summary summary_length_words summary =
     (case summary_length_words of
        None \<Rightarrow> summary
      | Some n \<Rightarrow>
          if n \<noteq> 0 \<and> summary \<noteq> [] then
            (let ws = split_ws summary
             in if int (length ws) > n then join '' '' (slice_to n ws) @ ''...'' else summary)
          else summary)"

definition generate_summary ::
    "VideoProcessor \<Rightarrow> string \<Rightarrow> visual_analysis \<Rightarrow> int option \<Rightarrow> string" where
  "generate_summary self audio_transcription va summary_length_words =
     (let scenes = visual_scenes (frame_captions va);
          summary = try_providers self;
          summary = (if not_summary summary then fallback_summary audio_transcription scenes
                     else the summary)
      in trim_summary summary_length_words summary)"

subsection \<open>process\_video\<close>

record results =
  audio_transcription :: string
  visual_analysis :: visual_analysis
  final_summary :: string
  results_status :: string

text \<open>What \<open>process_video\<close> returns: the dictionary with keys \<open>error\<close> and
  \<open>status\<close> when no frame was extracted, the results dictionary otherwise.\<close>

datatype result_dict = ErrorDict string string | ResultsDict results

text \<open>Lines 467-478: the summary used when no client is configured.\<close>

definition plain_summary :: "string \<Rightarrow> visual_analysis \<Rightarrow> string" where
  "plain_summary transcription va =
     ''This video presents content covering multiple aspects. ''
       @ (if transcription \<noteq> [] \<and> \<not> contains ''No audio'' transcription
          then ''Audio narration discusses: '' @ take 200 transcription @ ''... '' else [])
       @ (if frame_captions va \<noteq> [] then
            (let key_scenes =
                   map (\<lambda>caption. strip (before_first '' | '' (after_first '': '' caption)))
                     (filter (contains '': '') (take 3 (frame_captions va)))
             in if key_scenes \<noteq> [] then ''Visually shows: '' @ join '', '' key_scenes @ ''.''
                else [])
          else [])"

definition process_video ::
    "VideoProcessor \<Rightarrow> (string \<Rightarrow> media) \<Rightarrow> string \<Rightarrow> int \<Rightarrow> bool \<Rightarrow> int option
       \<Rightarrow> exn + result_dict" where
  "process_video self world video_path num_frames use_llm summary_length_words =
     (case extract_keyframes world video_path num_frames of
        Inl e \<Rightarrow> Inl e
      | Inr frames \<Rightarrow>
          if frames = [] then
            Inr (ErrorDict ''Could not extract frames from video'' ''error'')
          else
            (let transcription =
                   (case extract_audio world video_path of
                      Some (audio_data, sample_rate) \<Rightarrow>
                        transcribe_audio self (Some audio_data) sample_rate
                    | None \<Rightarrow> ''No audio track found in video.'');
                 va = analyze_visual_content self frames;
                 summary =
                   (if use_llm \<and> (groq_client self \<noteq> None \<or> gemini_model self \<noteq> None)
                    then generate_summary self transcription va summary_length_words
                    else plain_summary transcription va)
             in Inr (ResultsDict \<lparr>audio_transcription = transcription, visual_analysis = va,
                       final_summary = summary, results_status = ''completed''\<rparr>)))"

section \<open>The job server (app.py)\<close>

subsection \<open>Jobs, the live cache and the durable store\<close>

datatype json =
    JNull
  | JBool bool
  | JNumber int
  | JString string
  | JArray "json list"
  | JObject "(string \<times> json) list"

text \<open>
  An entry of the dictionary \<open>jobs\<close> (the live cache) has the keys below; the key
  \<open>result\<close> is absent (\<open>None\<close>) until the worker sets it. Every entry is created
  with the keys \<open>status\<close>, \<open>progress\<close> and \<open>step\<close>, so the defaults of
  \<open>job_data.get\<close> in \<open>get_job_status\<close> are never taken. A row of the table
  \<open>jobs\<close> (the durable store) has the same columns and the two timestamps; its
  \<open>result\<close> and \<open>metadata\<close> columns hold the serialised values, which are
  modelled by the values themselves.
\<close>

record job =
  job_id :: string
  user_id :: string
  status :: string
  progress :: int
  step :: string
  video_path :: string
  num_frames :: int
  summary_style :: string
  summary_format :: string
  summary_length_words :: "int option"
  metadata :: json
  result :: "result_dict option"

record job_row = job +
  created_at :: nat
  updated_at :: nat

record state =
  jobs :: "string \<rightharpoonup> job"
  db_jobs :: "string \<rightharpoonup> job_row"
  files :: "string set"

text \<open>\<open>UPDATE jobs SET ... WHERE id = ?\<close>: changes the row with that id, if there is one.\<close>

definition sql_update :: "(job_row \<Rightarrow> job_row) \<Rightarrow> string \<Rightarrow> (string \<rightharpoonup> job_row) \<Rightarrow> (string \<rightharpoonup> job_row)" where
  "sql_update f jid db = (case db jid of None \<Rightarrow> db | Some row \<Rightarrow> db(jid \<mapsto> f row))"

subsection \<open>process\_video\_job\<close>

text \<open>
  The worker thread of one job, run from start to end. \<open>video_processor\<close> is the
  global of that name (\<open>None\<close> when its initialisation failed), \<open>now\<close> the value of
  \<open>CURRENT_TIMESTAMP\<close>. The style, format and profile arguments only reach the prompt
  and are left out. When \<open>jobs\<close> has no entry for the job, the first assignment raises
  \<open>KeyError\<close>, the handler raises it again, and the thread ends with no effect.
\<close>

definition run_processor ::
    "VideoProcessor option \<Rightarrow> (string \<Rightarrow> media) \<Rightarrow> string \<Rightarrow> int \<Rightarrow> int option
       \<Rightarrow> exn + result_dict" where
  "run_processor video_processor world path n_frames length_words =
     (case video_processor of
        None \<Rightarrow> Inl (AttributeError ([CHR 0x27] @ ''NoneType'' @ [CHR 0x27]
                  @ '' object has no attribute '' @ [CHR 0x27] @ ''process_video'' @ [CHR 0x27]))
      | Some self \<Rightarrow> process_video self world path n_frames True length_words)"

definition process_video_job ::
    "VideoProcessor option \<Rightarrow> (string \<Rightarrow> media) \<Rightarrow> nat \<Rightarrow> string \<Rightarrow> string \<Rightarrow> int
       \<Rightarrow> int option \<Rightarrow> state \<Rightarrow> state" where
  "process_video_job video_processor world now jid path n_frames length_words st =
     (case jobs st jid of
        None \<Rightarrow> st
      | Some queued \<Rightarrow>
          (let started = queued\<lparr>status := ''processing'', progress := 10,
                                step := ''Extracting frames''\<rparr>
           in case run_processor video_processor world path n_frames length_words of
                Inr res \<Rightarrow>
                  st\<lparr>jobs := (jobs st)(jid \<mapsto>
                         started\<lparr>status := ''done'', progress := 100, step := ''Complete'',
                                 result := Some res\<rparr>),
                     db_jobs := sql_update
                         (\<lambda>row. row\<lparr>status := ''done'', progress := 100, step := ''Complete'',
                                     result := Some res, updated_at := now\<rparr>)
                         jid (db_jobs st),
                     files := files st - {path}\<rparr>
              | Inl e \<Rightarrow>
                  st\<lparr>jobs := (jobs st)(jid \<mapsto>
                         started\<lparr>status := ''failed'', step := ''Error: '' @ str_exn e\<rparr>),
                     db_jobs := sql_update
                         (\<lambda>row. row\<lparr>status := ''failed'', step := ''Error: '' @ str_exn e,
                                     updated_at := now\<rparr>)
                         jid (db_jobs st)\<rparr>))"

subsection \<open>upload\_video\<close>

text \<open>
  A request: the name of the uploaded file (\<open>None\<close> when the request has no part
  \<open>file\<close>), the form fields and the identity of the token. \<open>runtime\<close> holds the
  library functions and ambient values the handler uses: \<open>int\<close> on a string,
  \<open>json.loads\<close>, \<open>secure_filename\<close>, the first and second \<open>uuid4\<close> the handler
  draws, the upload folder and the current timestamp.
\<close>

record request =
  file_name :: "string option"
  form :: "string \<rightharpoonup> string"
  jwt_identity :: string

record runtime =
  py_int :: "string \<Rightarrow> exn + int"
  json_loads :: "string \<Rightarrow> exn + json"
  secure_filename :: "string \<Rightarrow> string"
  file_uuid :: string
  job_uuid :: string
  upload_folder :: string
  current_timestamp :: nat

record result_body =
  jobId :: string
  summary :: string
  body_audio_transcription :: string
  visualCaptions :: "(nat \<times> string) list"
  transcript :: string
  highlights :: "string list"
  videoUrl :: "string option"
  summaryFormat :: string

text \<open>The JSON bodies of the responses; a response is a body and an HTTP status code.
  \<open>StatusBody\<close> carries jobId, status, progress, step and etaSeconds.\<close>

datatype body =
    ErrorBody string
  | UploadBody string
  | StatusBody string string int string int
  | ResultBody result_body

type_synonym response = "body \<times> nat"

text \<open>\<open>os.path.join\<close> of a folder and a relative name.\<close>

definition path_join :: "string \<Rightarrow> string \<Rightarrow> string" where
  "path_join a b = (if a = [] then b else if last a = CHR ''/'' then a @ b else a @ ''/'' @ b)"

text \<open>
  The handler up to the start of the worker thread. The query of the user's profile is
  left out (the profile only reaches the prompt). The \<open>INSERT\<close> fails on a job id that
  is already a primary key of the table; the handler then answers 500 from its outer
  \<open>except\<close>, after the file and the cache entry were written.
\<close>

definition upload_video :: "runtime \<Rightarrow> request \<Rightarrow> state \<Rightarrow> response \<times> state" where
  "upload_video rt req st =
     (case file_name req of
        None \<Rightarrow> ((ErrorBody ''No file provided'', 400), st)
      | Some filename \<Rightarrow>
          if filename = [] then ((ErrorBody ''No file selected'', 400), st)
          else
            (case (case form req ''num_frames'' of None \<Rightarrow> Inr 10 | Some s \<Rightarrow> py_int rt s) of
               Inl e \<Rightarrow> ((ErrorBody (str_exn e), 500), st)
             | Inr frames_wanted \<Rightarrow>
                 (let style = (case form req ''summary_style'' of None \<Rightarrow> ''default'' | Some s \<Rightarrow> s);
                      fmt = (case form req ''summary_format'' of None \<Rightarrow> ''paragraph'' | Some s \<Rightarrow> s);
                      length_words =
                        (case form req ''summary_length_words'' of
                           None \<Rightarrow> None
                         | Some s \<Rightarrow> (case py_int rt s of Inl e \<Rightarrow> None | Inr n \<Rightarrow> Some n));
                      metadata_json = (case form req ''metadata'' of None \<Rightarrow> ''{}'' | Some s \<Rightarrow> s);
                      meta = (case json_loads rt metadata_json of Inl e \<Rightarrow> JObject [] | Inr v \<Rightarrow> v);
                      path = path_join (upload_folder rt)
                               (file_uuid rt @ ''_'' @ secure_filename rt filename);
                      entry = \<lparr>job_id = job_uuid rt, user_id = jwt_identity req,
                               status = ''queued'', progress = 0, step = ''Queued'',
                               video_path = path, num_frames = frames_wanted,
                               summary_style = style, summary_format = fmt,
                               summary_length_words = length_words, metadata = meta,
                               result = None\<rparr>;
                      st1 = st\<lparr>files := insert path (files st),
                               jobs := (jobs st)(job_uuid rt \<mapsto> entry)\<rparr>
                  in if db_jobs st (job_uuid rt) \<noteq> None
                     then ((ErrorBody ''UNIQUE constraint failed: jobs.id'', 500), st1)
                     else ((UploadBody (job_uuid rt), 202),
                           st1\<lparr>db_jobs := (db_jobs st)(job_uuid rt \<mapsto>
                                  job.extend entry
                                    \<lparr>created_at = current_timestamp rt,
                                     updated_at = current_timestamp rt\<rparr>)\<rparr>))))"

subsection \<open>get\_job\_status and get\_job\_result\<close>

definition get_job_status :: "string \<Rightarrow> string \<Rightarrow> state \<Rightarrow> response" where
  "get_job_status jid uid st =
     (case db_jobs st jid of
        None \<Rightarrow> (ErrorBody ''Job not found'', 404)
      | Some row \<Rightarrow>
          if user_id row \<noteq> uid then (ErrorBody ''Job not found'', 404)
          else
            (let (status_now, progress_now, step_now) =
                   (case jobs st jid of
                      Some job_data \<Rightarrow> (status job_data, progress job_data, step job_data)
                    | None \<Rightarrow> (status row, progress row, step row));
                 eta_seconds = (if status_now = ''processing'' then (100 - progress_now) * 2 else 0)
             in (StatusBody jid status_now progress_now step_now eta_seconds, 200)))"

text \<open>The list \<open>visual_captions\<close> built from the stored result.\<close>

definition visual_captions :: "result_dict option \<Rightarrow> (nat \<times> string) list" where
  "visual_captions res =
     (case res of
        Some (ResultsDict r) \<Rightarrow>
          if frame_captions (visual_analysis r) \<noteq> [] then
            map (\<lambda>(idx, caption).
                   (idx + 1, if contains '': '' caption then after_first '': '' caption else caption))
              (enumerate 0 (frame_captions (visual_analysis r)))
          else []
      | _ \<Rightarrow> [])"

definition get_job_result :: "string \<Rightarrow> string \<Rightarrow> state \<Rightarrow> response" where
  "get_job_result jid uid st =
     (case db_jobs st jid of
        None \<Rightarrow> (ErrorBody ''Job not found'', 404)
      | Some row \<Rightarrow>
          if user_id row \<noteq> uid then (ErrorBody ''Job not found'', 404)
          else if status row \<noteq> ''done'' then (ErrorBody ''Job not completed yet'', 400)
          else
            (let res = result row;
                 text_of = (\<lambda>field. case res of Some (ResultsDict r) \<Rightarrow> field r | _ \<Rightarrow> [])
             in (ResultBody \<lparr>jobId = jid,
                   summary = text_of final_summary,
                   body_audio_transcription = text_of audio_transcription,
                   visualCaptions = visual_captions res,
                   transcript = text_of audio_transcription,
                   highlights = [],
                   videoUrl = None,
                   summaryFormat = ''paragraph''\<rparr>, 200)))"

subsection \<open>Process restart\<close>

text \<open>The live cache is the module-level dictionary \<open>jobs = {}\<close>: a restarted process
  starts with an empty one, while the database and the files stay.\<close>

definition restart :: "state \<Rightarrow> state" where
  "restart st = st\<lparr>jobs := Map.empty\<rparr>"

section \<open>Concrete inputs\<close>

text \<open>A seven-frame file without audio whose frame at position \<open>k\<close> is \<open>[k]\<close>, and a
  processor whose OCR fails on the empty frame and reads three detections on frame \<open>[0]\<close>.\<close>

definition sample_media :: media where
  "sample_media = \<lparr>isOpened = True, frame_count = 7,
     read_at = (\<lambda>k. if k < 7 then Some [k] else None), audio = NoAudioTrack\<rparr>"

definition sample_processor :: VideoProcessor where
  "sample_processor =
     \<lparr>blip_model = (\<lambda>f. if f = [] then Inl (Exception ''blip'') else Inr ''a dog''),
      whisper_model = (\<lambda>d r. Inr '' hello world ''),
      ocr_reader = (\<lambda>f. if f = [] then Inl (Exception ''ocr'')
                         else if f = [0] then Inr [([], ''EXIT'', 1/2), ([], ''STOP'', 9/10), ([], ''x'', 1/5)]
                         else Inr []),
      groq_client = None, gemini_model = None\<rparr>"

text \<open>A file that opens and has no frame, a file that does not open, and one upload
  request (with a \<open>metadata\<close> field that is not JSON) handled from the empty state.\<close>

definition empty_media :: media where
  "empty_media = \<lparr>isOpened = True, frame_count = 0, read_at = (\<lambda>k. None), audio = NoAudioTrack\<rparr>"

definition closed_media :: media where
  "closed_media = \<lparr>isOpened = False, frame_count = 0, read_at = (\<lambda>k. None), audio = NoAudioTrack\<rparr>"

definition sample_runtime :: runtime where
  "sample_runtime =
     \<lparr>py_int = (\<lambda>s. if s = ''10'' then Inr 10 else if s = ''50'' then Inr 50
                     else Inl (ValueError ''invalid literal for int() with base 10'')),
      json_loads = (\<lambda>s. if s = ''{}'' then Inr (JObject [])
                         else Inl (ValueError ''Expecting property name'')),
      secure_filename = (\<lambda>s. s),
      file_uuid = ''f1'', job_uuid = ''j1'', upload_folder = ''./uploads'',
      current_timestamp = 1\<rparr>"

definition sample_request :: request where
  "sample_request = \<lparr>file_name = Some ''v.mp4'', form = [''metadata'' \<mapsto> ''{broken''],
     jwt_identity = ''u1''\<rparr>"

definition initial_state :: state where
  "initial_state = \<lparr>jobs = Map.empty, db_jobs = Map.empty, files = {}\<rparr>"

definition sample_state :: state where
  "sample_state = snd (upload_video sample_runtime sample_request initial_state)"

definition sample_job :: job where
 "sample_job = \<lparr>job_id = ''j1'', user_id = ''u1'', status = ''queued'', progress = 0, step = ''Queued'',
       video_path = ''./uploads/f1_v.mp4'', num_frames = 10, summary_style = ''default'',
       summary_format = ''paragraph'', summary_length_words = None, metadata = JObject [],
       result = None\<rparr>"

text \<open>Two stored captions, processors whose generation clients answer, answer with blanks
  or raise, files with a given audio track, and a processor whose speech model raises on
  one sample, hears nothing in two and transcribes three.\<close>

definition dog_captions :: visual_analysis where
  "dog_captions = \<lparr>frame_captions = [''Frame 1: a dog | On-screen text: STOP'', ''Frame 2: a cat''],
     ocr_texts = [''STOP''], visual_summary = []\<rparr>"



definition failing_processor :: VideoProcessor where
  "failing_processor = sample_processor\<lparr>groq_client := Some (Inl (Exception ''rate limit'')),
     gemini_model := Some (Inl (Exception ''unavailable''))\<rparr>"



text \<open>The results of processing the seven-frame file with three frames requested.\<close>

definition sample_results :: results where
  "sample_results =
     \<lparr>audio_transcription = ''No audio track found in video.'',
      visual_analysis =
        \<lparr>frame_captions = [''Frame 1: a dog | On-screen text: STOP'', ''Frame 2: a dog'',
                            ''Frame 3: a dog''],
         ocr_texts = [''STOP''],
         visual_summary = ''Frame 1: a dog | On-screen text: STOP'' @ [CHR 0x0A]
                            @ ''Frame 2: a dog'' @ [CHR 0x0A] @ ''Frame 3: a dog''\<rparr>,
      final_summary = ''This video presents content covering multiple aspects. Visually shows: a dog, a dog, a dog.'',
      results_status = ''completed''\<rparr>"

section \<open>Frame sampling\<close>

lemma py_range_length: "length (py_range n) = nat n"
  by (simp add: py_range_def)













section \<open>On-screen text\<close>

text \<open>
  Claim C8, as the code has it. \<open>extract_text_from_frame\<close> returns the empty list when
  the OCR call raises; otherwise it returns, in the order of detection, the texts of the
  detections whose confidence is strictly above 0.5, so a detection of confidence 0.5 or
  less is discarded. The function is total: no exception leaves it.
\<close>

theorem extract_text_threshold:
  "(\<forall>e. ocr_reader self frame = Inl e \<longrightarrow> extract_text_from_frame self frame = []) \<and>
   (\<forall>results. ocr_reader self frame = Inr results \<longrightarrow>
      extract_text_from_frame self frame =
        map (\<lambda>(box, text, confidence). text)
          (filter (\<lambda>(box, text, confidence). \<not> confidence \<le> 0.5) results))"
  by (simp add: extract_text_from_frame_def split_def not_le)

theorem extract_text_threshold_witness:
  "ocr_reader sample_processor [] = Inl (Exception ''ocr'') \<and>
   extract_text_from_frame sample_processor [] = [] \<and>
   ocr_reader sample_processor [0] = Inr [([], ''EXIT'', 1/2), ([], ''STOP'', 9/10), ([], ''x'', 1/5)] \<and>
   extract_text_from_frame sample_processor [0] = [''STOP'']"
  using extract_text_threshold [of sample_processor "[]"]
    extract_text_threshold [of sample_processor "[0]"]
  by (simp add: sample_processor_def)

text \<open>
  Claim C8 as stated keeps every detection that is not below the threshold. The detection
  \<open>EXIT\<close> has confidence 0.5, which is not below 0.5, and is discarded.
\<close>

theorem extract_text_at_threshold_counterexample:
  "ocr_reader sample_processor [0] = Inr [([], ''EXIT'', 1/2), ([], ''STOP'', 9/10), ([], ''x'', 1/5)] \<and>
   \<not> ((1/2 :: real) < 0.5) \<and>
   ''EXIT'' \<notin> set (extract_text_from_frame sample_processor [0])"
  by (simp add: sample_processor_def extract_text_from_frame_def)

section \<open>The worker and the status query\<close>

lemma sample_upload:
  "upload_video sample_runtime sample_request initial_state =
     ((UploadBody ''j1'', 202),
      \<lparr>jobs = [''j1'' \<mapsto> sample_job],
       db_jobs = [''j1'' \<mapsto> job.extend sample_job \<lparr>created_at = 1, updated_at = 1\<rparr>],
       files = {''./uploads/f1_v.mp4''}\<rparr>)"
  by (simp add: upload_video_def sample_runtime_def sample_request_def initial_state_def
      sample_job_def path_join_def Let_def)


lemma sample_state_eq:
  "sample_state =
     \<lparr>jobs = [''j1'' \<mapsto> sample_job],
      db_jobs = [''j1'' \<mapsto> job.extend sample_job \<lparr>created_at = 1, updated_at = 1\<rparr>],
      files = {''./uploads/f1_v.mp4''}\<rparr>"
  by (simp add: sample_state_def sample_upload)

lemma run_processor_empty:
  "run_processor (Some sample_processor) (\<lambda>p. empty_media) path 10 None =
     Inr (ErrorDict ''Could not extract frames from video'' ''error'')"
  by (simp add: run_processor_def process_video_def extract_keyframes_def empty_media_def
      frame_indices_def py_range_def)

text \<open>
  Claim C1 at a file that opens and has no decodable frame. \<open>extract_keyframes\<close> returns
  no frame, \<open>process_video\<close> returns the dictionary with the keys \<open>error\<close> and
  \<open>status\<close> instead of raising, and the worker, which does not look at it, ends the job
  in state \<open>done\<close> with step \<open>Complete\<close> and stores that dictionary as the result.
\<close>

theorem zero_frames_job_done:
  "isOpened empty_media \<and>
   extract_keyframes (\<lambda>p. empty_media) ''./uploads/f1_v.mp4'' 10 = Inr [] \<and>
   map_option status
     (jobs (process_video_job (Some sample_processor) (\<lambda>p. empty_media) 5 ''j1''
              ''./uploads/f1_v.mp4'' 10 None sample_state) ''j1'') = Some ''done'' \<and>
   map_option step
     (jobs (process_video_job (Some sample_processor) (\<lambda>p. empty_media) 5 ''j1''
              ''./uploads/f1_v.mp4'' 10 None sample_state) ''j1'') = Some ''Complete'' \<and>
   map_option status
     (db_jobs (process_video_job (Some sample_processor) (\<lambda>p. empty_media) 5 ''j1''
              ''./uploads/f1_v.mp4'' 10 None sample_state) ''j1'') = Some ''done'' \<and>
   map_option result
     (db_jobs (process_video_job (Some sample_processor) (\<lambda>p. empty_media) 5 ''j1''
              ''./uploads/f1_v.mp4'' 10 None sample_state) ''j1'') =
     Some (Some (ErrorDict ''Could not extract frames from video'' ''error''))"
proof -
  have "isOpened empty_media"
    by (simp add: empty_media_def)
  moreover have "extract_keyframes (\<lambda>p. empty_media) ''./uploads/f1_v.mp4'' 10 = Inr []"
    by (simp add: extract_keyframes_def empty_media_def frame_indices_def py_range_def)
  ultimately show ?thesis
    by (simp add: process_video_job_def run_processor_empty sample_state_eq sql_update_def
        job.defs)
qed

lemma process_video_job_cases:
  assumes "jobs st jid = Some j"
  shows "(\<exists>res. run_processor vp world path n lw = Inr res \<and>
            process_video_job vp world now jid path n lw st =
              st\<lparr>jobs := (jobs st)(jid \<mapsto> j\<lparr>status := ''done'', progress := 100,
                                               step := ''Complete'', result := Some res\<rparr>),
                 db_jobs := sql_update
                     (\<lambda>row. row\<lparr>status := ''done'', progress := 100, step := ''Complete'',
                                 result := Some res, updated_at := now\<rparr>)
                     jid (db_jobs st),
                 files := files st - {path}\<rparr>) \<or>
         (\<exists>e. run_processor vp world path n lw = Inl e \<and>
            process_video_job vp world now jid path n lw st =
              st\<lparr>jobs := (jobs st)(jid \<mapsto>
                        j\<lparr>status := ''processing'', progress := 10, step := ''Extracting frames''\<rparr>
                         \<lparr>status := ''failed'', step := ''Error: '' @ str_exn e\<rparr>),
                 db_jobs := sql_update
                     (\<lambda>row. row\<lparr>status := ''failed'', step := ''Error: '' @ str_exn e,
                                 updated_at := now\<rparr>)
                     jid (db_jobs st)\<rparr>)"
  using assms
  by (cases "run_processor vp world path n lw") (simp_all add: process_video_job_def)

text \<open>
  Claim C7. A worker run on a cached job ends in \<open>done\<close> or in \<open>failed\<close>. When it ends
  in \<open>done\<close> the media file is gone and no other file is touched; when it ends in
  \<open>failed\<close> the files are as before. The parameters of the cache entry and of the
  database row (identity, owner, media path, frame count, style, format, target length,
  metadata) and the row's creation time are unchanged, and so is every other job.
\<close>

theorem process_video_job_terminal:
  assumes cached: "jobs st jid = Some j"
    and run: "st' = process_video_job vp world now jid path n lw st"
  shows "\<exists>j'. jobs st' jid = Some j' \<and>
           (status j' = ''done'' \<or> status j' = ''failed'') \<and>
           (status j' = ''done'' \<longrightarrow> path \<notin> files st' \<and> files st' = files st - {path}) \<and>
           (status j' = ''failed'' \<longrightarrow> files st' = files st) \<and>
           job_id j' = job_id j \<and> user_id j' = user_id j \<and> video_path j' = video_path j \<and>
           num_frames j' = num_frames j \<and> summary_style j' = summary_style j \<and>
           summary_format j' = summary_format j \<and>
           summary_length_words j' = summary_length_words j \<and> metadata j' = metadata j \<and>
           (\<forall>row. db_jobs st jid = Some row \<longrightarrow>
              (\<exists>row'. db_jobs st' jid = Some row' \<and> status row' = status j' \<and>
                 job_id row' = job_id row \<and> user_id row' = user_id row \<and>
                 video_path row' = video_path row \<and> num_frames row' = num_frames row \<and>
                 summary_style row' = summary_style row \<and>
                 summary_format row' = summary_format row \<and>
                 summary_length_words row' = summary_length_words row \<and>
                 metadata row' = metadata row \<and> created_at row' = created_at row)) \<and>
           (\<forall>other. other \<noteq> jid \<longrightarrow>
              jobs st' other = jobs st other \<and> db_jobs st' other = db_jobs st other)"
  using process_video_job_cases [OF cached, of vp world path n lw now] run
  by (auto simp: sql_update_def split: option.splits)



lemma run_processor_sample:
  "run_processor (Some sample_processor) (\<lambda>p. sample_media) ''./uploads/f1_v.mp4'' 3 None =
     Inr (ResultsDict sample_results)"
  by code_simp

lemma run_processor_closed:
  "run_processor (Some sample_processor) (\<lambda>p. closed_media) ''./uploads/f1_v.mp4'' 3 None =
     Inl (ValueError ''Could not open video: ./uploads/f1_v.mp4'')"
  by (simp add: run_processor_def process_video_def extract_keyframes_def closed_media_def)

theorem process_video_job_terminal_witness:
  "jobs sample_state ''j1'' = Some sample_job \<and>
   map_option status
     (jobs (process_video_job (Some sample_processor) (\<lambda>p. sample_media) 5 ''j1''
              ''./uploads/f1_v.mp4'' 3 None sample_state) ''j1'') = Some ''done'' \<and>
   files (process_video_job (Some sample_processor) (\<lambda>p. sample_media) 5 ''j1''
              ''./uploads/f1_v.mp4'' 3 None sample_state) = {} \<and>
   map_option status
     (jobs (process_video_job (Some sample_processor) (\<lambda>p. closed_media) 5 ''j1''
              ''./uploads/f1_v.mp4'' 3 None sample_state) ''j1'') = Some ''failed'' \<and>
   files (process_video_job (Some sample_processor) (\<lambda>p. closed_media) 5 ''j1''
              ''./uploads/f1_v.mp4'' 3 None sample_state) = {''./uploads/f1_v.mp4''}"
proof -
  have cached: "jobs sample_state ''j1'' = Some sample_job"
    by (simp add: sample_state_eq)
  note done_run = process_video_job_terminal [OF cached refl, of "Some sample_processor"
      "\<lambda>p. sample_media" 5 "''./uploads/f1_v.mp4''" 3 None]
  note failed_run = process_video_job_terminal [OF cached refl, of "Some sample_processor"
      "\<lambda>p. closed_media" 5 "''./uploads/f1_v.mp4''" 3 None]
  have a: "map_option status
     (jobs (process_video_job (Some sample_processor) (\<lambda>p. sample_media) 5 ''j1''
              ''./uploads/f1_v.mp4'' 3 None sample_state) ''j1'') = Some ''done''"
    by (simp add: process_video_job_def run_processor_sample sample_state_eq)
  have b: "map_option status
     (jobs (process_video_job (Some sample_processor) (\<lambda>p. closed_media) 5 ''j1''
              ''./uploads/f1_v.mp4'' 3 None sample_state) ''j1'') = Some ''failed''"
    by (simp add: process_video_job_def run_processor_closed sample_state_eq)
  from done_run a have "files (process_video_job (Some sample_processor) (\<lambda>p. sample_media) 5 ''j1''
              ''./uploads/f1_v.mp4'' 3 None sample_state) = files sample_state - {''./uploads/f1_v.mp4''}"
    by auto
  moreover from failed_run b have "files (process_video_job (Some sample_processor) (\<lambda>p. closed_media) 5 ''j1''
              ''./uploads/f1_v.mp4'' 3 None sample_state) = files sample_state"
    by auto
  ultimately show ?thesis
    using cached a b by (simp add: sample_state_eq)
qed

text \<open>
  Claim C2. For a job whose row is in the database and owned by the caller, the status
  query reports the status, progress and step of the cache entry when there is one, and
  those of the database row when there is none; the reported \<open>etaSeconds\<close> is 0 for
  every status but \<open>processing\<close>. Once a worker run has left the job in \<open>done\<close>, the
  query after a restart, when the cache entry is gone, reports \<open>done\<close>, progress 100
  and \<open>etaSeconds\<close> 0.
\<close>

theorem get_job_status_sources:
  assumes stored: "db_jobs st jid = Some row"
    and owner: "user_id row = uid"
  shows "(\<forall>j. jobs st jid = Some j \<longrightarrow>
            get_job_status jid uid st =
              (StatusBody jid (status j) (progress j) (step j)
                 (if status j = ''processing'' then (100 - progress j) * 2 else 0), 200)) \<and>
         (jobs st jid = None \<longrightarrow>
            get_job_status jid uid st =
              (StatusBody jid (status row) (progress row) (step row)
                 (if status row = ''processing'' then (100 - progress row) * 2 else 0), 200)) \<and>
         (\<forall>s p l eta. get_job_status jid uid st = (StatusBody jid s p l eta, 200) \<and>
            s \<noteq> ''processing'' \<longrightarrow> eta = 0) \<and>
         (\<forall>vp world now path n lw j'.
            jobs (process_video_job vp world now jid path n lw st) jid = Some j' \<and>
            status j' = ''done'' \<longrightarrow>
            get_job_status jid uid (restart (process_video_job vp world now jid path n lw st)) =
              (StatusBody jid ''done'' 100 ''Complete'' 0, 200))"
proof (intro conjI allI impI)
  fix j assume "jobs st jid = Some j"
  with stored owner show "get_job_status jid uid st =
      (StatusBody jid (status j) (progress j) (step j)
         (if status j = ''processing'' then (100 - progress j) * 2 else 0), 200)"
    by (simp add: get_job_status_def)
next
  assume "jobs st jid = None"
  with stored owner show "get_job_status jid uid st =
      (StatusBody jid (status row) (progress row) (step row)
         (if status row = ''processing'' then (100 - progress row) * 2 else 0), 200)"
    by (simp add: get_job_status_def)
next
  fix s p l eta
  assume "get_job_status jid uid st = (StatusBody jid s p l eta, 200) \<and> s \<noteq> ''processing''"
  with stored owner show "eta = 0"
    by (auto simp: get_job_status_def split: option.splits if_splits)
next
  fix vp world now path n lw j'
  let ?st' = "process_video_job vp world now jid path n lw st"
  assume finished: "jobs ?st' jid = Some j' \<and> status j' = ''done''"
  then obtain j where cached: "jobs st jid = Some j"
    by (cases "jobs st jid") (auto simp: process_video_job_def)
  from process_video_job_cases [OF cached, of vp world path n lw now] finished
  obtain res where "?st' =
      st\<lparr>jobs := (jobs st)(jid \<mapsto> j\<lparr>status := ''done'', progress := 100,
                                       step := ''Complete'', result := Some res\<rparr>),
         db_jobs := sql_update
             (\<lambda>row. row\<lparr>status := ''done'', progress := 100, step := ''Complete'',
                         result := Some res, updated_at := now\<rparr>)
             jid (db_jobs st),
         files := files st - {path}\<rparr>"
    by auto
  with stored owner show "get_job_status jid uid (restart ?st') =
      (StatusBody jid ''done'' 100 ''Complete'' 0, 200)"
    by (simp add: get_job_status_def restart_def sql_update_def)
qed

theorem get_job_status_sources_witness:
  "db_jobs sample_state ''j1'' \<noteq> None \<and>
   get_job_status ''j1'' ''u1'' sample_state = (StatusBody ''j1'' ''queued'' 0 ''Queued'' 0, 200) \<and>
   get_job_status ''j1'' ''u1'' (restart sample_state) =
     (StatusBody ''j1'' ''queued'' 0 ''Queued'' 0, 200) \<and>
   get_job_status ''j1'' ''u1''
     (restart (process_video_job (Some sample_processor) (\<lambda>p. sample_media) 5 ''j1''
                 ''./uploads/f1_v.mp4'' 3 None sample_state)) =
     (StatusBody ''j1'' ''done'' 100 ''Complete'' 0, 200)"
proof -
  let ?row = "job.extend sample_job \<lparr>created_at = 1, updated_at = 1\<rparr>"
  have stored: "db_jobs sample_state ''j1'' = Some ?row"
    by (simp add: sample_state_eq)
  have owner: "user_id ?row = ''u1''"
    by (simp add: sample_job_def job.defs)
  have stored': "db_jobs (restart sample_state) ''j1'' = Some ?row"
    by (simp add: sample_state_eq restart_def)
  have finished: "map_option status
     (jobs (process_video_job (Some sample_processor) (\<lambda>p. sample_media) 5 ''j1''
              ''./uploads/f1_v.mp4'' 3 None sample_state) ''j1'') = Some ''done''"
    by (simp add: process_video_job_def run_processor_sample sample_state_eq)
  from get_job_status_sources [OF stored owner]
  have "get_job_status ''j1'' ''u1'' sample_state = (StatusBody ''j1'' ''queued'' 0 ''Queued'' 0, 200)"
    by (simp add: sample_state_eq sample_job_def)
  moreover from get_job_status_sources [OF stored' owner]
  have "get_job_status ''j1'' ''u1'' (restart sample_state) =
      (StatusBody ''j1'' ''queued'' 0 ''Queued'' 0, 200)"
    by (simp add: sample_state_eq sample_job_def restart_def job.defs)
  moreover from get_job_status_sources [OF stored owner] finished
  have "get_job_status ''j1'' ''u1''
     (restart (process_video_job (Some sample_processor) (\<lambda>p. sample_media) 5 ''j1''
                 ''./uploads/f1_v.mp4'' 3 None sample_state)) =
     (StatusBody ''j1'' ''done'' 100 ''Complete'' 0, 200)"
    by auto
  ultimately show ?thesis
    using stored by simp
qed

section \<open>Summary generation\<close>




lemma generate_summary_unfold:
  "generate_summary self t va W =
     trim_summary W
       (if not_summary (try_providers self)
        then fallback_summary t (visual_scenes (frame_captions va))
        else the (try_providers self))"
  by (simp add: generate_summary_def Let_def)









lemma trim_summary_long:
  "0 < n \<Longrightarrow> n < int (length (split_ws S)) \<Longrightarrow>
   trim_summary (Some n) S = join '' '' (take (nat n) (split_ws S)) @ ''...''"
  by (auto simp: trim_summary_def Let_def slice_to_def split_ws_def)

lemma trim_summary_short:
  "int (length (split_ws S)) \<le> n \<Longrightarrow> trim_summary (Some n) S = S"
  by (simp add: trim_summary_def Let_def)

lemma trim_summary_no_target:
  "trim_summary None S = S" "trim_summary (Some 0) S = S"
  by (simp_all add: trim_summary_def)

lemma generate_summary_trim:
  "generate_summary self t va W = trim_summary W (generate_summary self t va None)"
  by (simp add: generate_summary_unfold trim_summary_no_target)

text \<open>
  Claim C5, as the code has it. For a target of at least one word, a summary of more
  words becomes its first \<open>n\<close> words joined by single spaces and followed by
  \<open>...\<close>; a summary of at most \<open>n\<close> words is returned as it is. A target of 0 is
  treated like no target: the summary is returned as it is. \<open>generate_summary\<close> applies
  this trim to the summary it chose.
\<close>

theorem generate_summary_truncation:
  "(\<forall>n. 0 < n \<and> n < int (length (split_ws S)) \<longrightarrow>
      trim_summary (Some n) S = join '' '' (take (nat n) (split_ws S)) @ ''...'') \<and>
   (\<forall>n. int (length (split_ws S)) \<le> n \<longrightarrow> trim_summary (Some n) S = S) \<and>
   trim_summary (Some 0) S = S \<and>
   trim_summary None S = S \<and>
   generate_summary self t va W =
     trim_summary W
       (if not_summary (try_providers self)
        then fallback_summary t (visual_scenes (frame_captions va))
        else the (try_providers self))"
  by (simp add: trim_summary_long trim_summary_short trim_summary_no_target
      generate_summary_unfold)

theorem generate_summary_truncation_witness:
  "trim_summary (Some 3) ''This video  contains: hello there.'' = ''This video contains:...'' \<and>
   trim_summary (Some 5) ''This video  contains: hello there.'' =
     ''This video  contains: hello there.'' \<and>
   trim_summary (Some 50) ''This video  contains: hello there.'' =
     ''This video  contains: hello there.'' \<and>
   generate_summary failing_processor ''hello there'' dog_captions (Some 3) =
     ''This video contains:...''"
proof -
  have ws: "split_ws ''This video  contains: hello there.'' =
      [''This'', ''video'', ''contains:'', ''hello'', ''there.'']"
    by code_simp
  have chosen: "(if not_summary (try_providers failing_processor)
        then fallback_summary ''hello there'' (visual_scenes (frame_captions dog_captions))
        else the (try_providers failing_processor)) =
      ''This video contains: hello there. Key scenes include: a dog, a cat.''"
    by code_simp
  have ws': "split_ws ''This video contains: hello there. Key scenes include: a dog, a cat.'' =
     [''This'', ''video'', ''contains:'', ''hello'', ''there.'', ''Key'', ''scenes'',
      ''include:'', ''a'', ''dog,'', ''a'', ''cat.'']"
    by code_simp
  note short = generate_summary_truncation [of "''This video  contains: hello there.''"
      failing_processor "''hello there''" dog_captions "Some 3"]
  note long = generate_summary_truncation
      [of "''This video contains: hello there. Key scenes include: a dog, a cat.''"
          failing_processor "''hello there''" dog_captions "Some 3"]
  from short have a: "trim_summary (Some 3) ''This video  contains: hello there.'' =
      ''This video contains:...''"
    unfolding ws by simp
  from short have b: "trim_summary (Some 5) ''This video  contains: hello there.'' =
      ''This video  contains: hello there.''"
    unfolding ws by simp
  from short have c: "trim_summary (Some 50) ''This video  contains: hello there.'' =
      ''This video  contains: hello there.''"
    unfolding ws by simp
  from long have d: "generate_summary failing_processor ''hello there'' dog_captions (Some 3) =
      ''This video contains:...''"
    unfolding ws' chosen by simp
  from a b c d show ?thesis by simp
qed

text \<open>
  Claim C5 as stated, at the target 0: the summary has more than 0 words, and the result
  is the whole summary, not its first 0 words followed by the ellipsis.
\<close>

theorem generate_summary_zero_target_counterexample:
  "0 < length (split_ws (generate_summary failing_processor ''hello there'' dog_captions None)) \<and>
   generate_summary failing_processor ''hello there'' dog_captions (Some 0) \<noteq>
     join '' '' (take 0 (split_ws (generate_summary failing_processor ''hello there''
                                      dog_captions None))) @ ''...''"
proof -
  have full: "generate_summary failing_processor ''hello there'' dog_captions None =
     ''This video contains: hello there. Key scenes include: a dog, a cat.''"
    by code_simp
  have zero: "generate_summary failing_processor ''hello there'' dog_captions (Some 0) =
     ''This video contains: hello there. Key scenes include: a dog, a cat.''"
    by code_simp
  have ws: "split_ws ''This video contains: hello there. Key scenes include: a dog, a cat.'' =
     [''This'', ''video'', ''contains:'', ''hello'', ''there.'', ''Key'', ''scenes'',
      ''include:'', ''a'', ''dog,'', ''a'', ''cat.'']"
    by code_simp
  show ?thesis unfolding full zero ws by simp
qed


section \<open>Audio\<close>





section \<open>Upload\<close>



section \<open>Result captions\<close>

lemma split_once_no_colon:
  "CHR '':'' \<notin> set p \<Longrightarrow> split_once '': '' (p @ '': '' @ rest) = Some (p, rest)"
  by (induction p) auto

lemma contains_iff_split_once:
  "sep \<noteq> [] \<Longrightarrow> contains sep s \<longleftrightarrow> split_once sep s \<noteq> None"
  by (induction s) auto

lemma enumerate_map_enumerate:
  "enumerate i (map F (enumerate i fs)) = map (\<lambda>(k, f). (k, F (k, f))) (enumerate i fs)"
  by (induction fs arbitrary: i) simp_all

lemma digit_char_no_colon:
  assumes "d < 10"
  shows "digit_char d \<noteq> CHR '':''"
proof
  assume "digit_char d = CHR '':''"
  then have "of_char (char_of (48 + d)) = (of_char (CHR '':'') :: nat)"
    by (simp add: digit_char_def)
  then have "(48 + d) mod 256 = 58"
    by simp
  with assms show False
    by simp
qed

lemma str_nat_no_colon: "CHR '':'' \<notin> set (str_nat n)"
proof (induction n rule: str_nat.induct)
  case (1 n)
  show ?case
  proof (cases "n < 10")
    case True
    then show ?thesis
      using digit_char_no_colon [of n] by (subst str_nat.simps) auto
  next
    case False
    with 1 show ?thesis
      using digit_char_no_colon [of "n mod 10"] by (subst str_nat.simps) auto
  qed
qed

lemma frame_label_stripped:
  "contains '': '' (''Frame '' @ str_nat k @ '': '' @ rest)"
  "after_first '': '' (''Frame '' @ str_nat k @ '': '' @ rest) = rest"
proof -
  have "CHR '':'' \<notin> set (''Frame '' @ str_nat k)"
    by (simp add: str_nat_no_colon)
  then have "split_once '': '' ((''Frame '' @ str_nat k) @ '': '' @ rest) = Some (''Frame '' @ str_nat k, rest)"
    by (rule split_once_no_colon)
  then have s: "split_once '': '' (''Frame '' @ str_nat k @ '': '' @ rest) = Some (''Frame '' @ str_nat k, rest)"
    by simp
  show "contains '': '' (''Frame '' @ str_nat k @ '': '' @ rest)"
    using s by (simp add: contains_iff_split_once)
  show "after_first '': '' (''Frame '' @ str_nat k @ '': '' @ rest) = rest"
    unfolding after_first_def s by simp
qed

lemma analyze_frames_captions:
  "fst (analyze_frames self i frames) =
     map (\<lambda>(k, frame).
            ''Frame '' @ str_nat (k + 1) @ '': '' @ caption_frame self frame
              @ (if extract_text_from_frame self frame \<noteq> []
                 then '' | On-screen text: '' @ join '', '' (extract_text_from_frame self frame)
                 else []))
         (enumerate i frames)"
  by (induction frames arbitrary: i) (simp_all add: Let_def split_def)

lemma visual_captions_analyzed:
  assumes "visual_analysis r = analyze_visual_content self frames"
  shows "visual_captions (Some (ResultsDict r)) =
     map (\<lambda>(idx, frame).
            (idx + 1,
             caption_frame self frame
               @ (if extract_text_from_frame self frame \<noteq> []
                  then '' | On-screen text: '' @ join '', '' (extract_text_from_frame self frame)
                  else [])))
         (enumerate 0 frames)"
proof -
  define shown where "shown = (\<lambda>frame. caption_frame self frame
               @ (if extract_text_from_frame self frame \<noteq> []
                  then '' | On-screen text: '' @ join '', '' (extract_text_from_frame self frame)
                  else []))"
  define labelled where "labelled = (\<lambda>k rest. ''Frame '' @ str_nat k @ '': '' @ rest)"
  define unlabel where "unlabel =
      (\<lambda>caption. if contains '': '' caption then after_first '': '' caption else caption)"
  have unlabel: "unlabel (labelled k rest) = rest" for k rest
    unfolding unlabel_def labelled_def using frame_label_stripped [of k rest] by simp
  have caps: "frame_captions (visual_analysis r) =
      map (\<lambda>(k, frame). labelled (k + 1) (shown frame)) (enumerate 0 frames)"
    using analyze_frames_captions [of self 0 frames]
    by (simp add: assms analyze_visual_content_def split_def labelled_def shown_def)
  have "map (\<lambda>(idx, caption). (idx + 1, unlabel caption))
          (enumerate 0 (map (\<lambda>(k, frame). labelled (k + 1) (shown frame)) (enumerate 0 frames))) =
        map (\<lambda>(idx, frame). (idx + 1, shown frame)) (enumerate 0 frames)"
    unfolding enumerate_map_enumerate by (simp add: split_def unlabel)
  then have "map (\<lambda>(idx, caption). (idx + 1, unlabel caption))
          (enumerate 0 (frame_captions (visual_analysis r))) =
        map (\<lambda>(idx, frame). (idx + 1, shown frame)) (enumerate 0 frames)"
    by (simp only: caps)
  moreover have "visual_captions (Some (ResultsDict r)) =
      map (\<lambda>(idx, caption). (idx + 1, unlabel caption))
        (enumerate 0 (frame_captions (visual_analysis r)))"
    by (simp add: visual_captions_def unlabel_def)
  ultimately show ?thesis
    by (simp only: shown_def)
qed

text \<open>
  Claim C10. For a finished job whose stored result holds the visual analysis of a list
  of frames, the result query answers 200 with one caption per frame, numbered 1, 2, ...
  in frame order. Each caption is the stored caption without its label \<open>Frame k: \<close>:
  the caption of the frame, followed by \<open> | On-screen text: \<close> and the comma-separated
  texts when the frame had on-screen text.
\<close>

theorem get_job_result_captions:
  assumes stored: "db_jobs st jid = Some row"
    and owner: "user_id row = uid"
    and finished: "status row = ''done''"
    and res: "result row = Some (ResultsDict r)"
    and analysed: "visual_analysis r = analyze_visual_content self frames"
  shows "\<exists>body. get_job_result jid uid st = (ResultBody body, 200) \<and>
           visualCaptions body =
             map (\<lambda>(idx, frame).
                    (idx + 1,
                     caption_frame self frame
                       @ (if extract_text_from_frame self frame \<noteq> []
                          then '' | On-screen text: ''
                                 @ join '', '' (extract_text_from_frame self frame)
                          else [])))
                 (enumerate 0 frames) \<and>
           map fst (visualCaptions body) = [1..<Suc (length frames)]"
proof -
  let ?caps = "map (\<lambda>(idx, frame).
                    (idx + 1,
                     caption_frame self frame
                       @ (if extract_text_from_frame self frame \<noteq> []
                          then '' | On-screen text: ''
                                 @ join '', '' (extract_text_from_frame self frame)
                          else [])))
                 (enumerate 0 frames)"
  have "map fst ?caps = map (\<lambda>x. Suc (fst x)) (enumerate 0 frames)"
    by (simp add: split_def comp_def)
  also have "\<dots> = map Suc (map fst (enumerate 0 frames))"
    by (simp only: map_map comp_def)
  also have "\<dots> = [1..<Suc (length frames)]"
    by (simp only: map_fst_enumerate map_Suc_upt) simp
  finally have numbered: "map fst ?caps = [1..<Suc (length frames)]" .
  from stored owner finished res obtain body where
    "get_job_result jid uid st = (ResultBody body, 200)"
    "visualCaptions body = visual_captions (Some (ResultsDict r))"
    by (simp add: get_job_result_def)
  with visual_captions_analyzed [OF analysed] numbered show ?thesis
    by simp
qed


theorem get_job_result_captions_witness:
  "\<exists>body. get_job_result ''j1'' ''u1''
            (process_video_job (Some sample_processor) (\<lambda>p. sample_media) 5 ''j1''
               ''./uploads/f1_v.mp4'' 3 None sample_state) = (ResultBody body, 200) \<and>
          visualCaptions body =
            [(1, ''a dog | On-screen text: STOP''), (2, ''a dog''), (3, ''a dog'')]"
proof -
  let ?st = "process_video_job (Some sample_processor) (\<lambda>p. sample_media) 5 ''j1''
               ''./uploads/f1_v.mp4'' 3 None sample_state"
  let ?row = "job.extend sample_job \<lparr>created_at = 1, updated_at = 1\<rparr>
                \<lparr>status := ''done'', progress := 100, step := ''Complete'',
                 result := Some (ResultsDict sample_results), updated_at := 5\<rparr>"
  have stored: "db_jobs ?st ''j1'' = Some ?row"
    by (simp add: process_video_job_def run_processor_sample sample_state_eq sql_update_def)
  have owner: "user_id ?row = ''u1''" and finished: "status ?row = ''done''"
    and res: "result ?row = Some (ResultsDict sample_results)"
    by (simp_all add: sample_job_def job.defs)
  have analysed: "visual_analysis sample_results =
      analyze_visual_content sample_processor [[0], [2], [4]]"
    by code_simp
  have shown:
    "caption_frame sample_processor [0] = ''a dog''"
    "caption_frame sample_processor [2] = ''a dog''"
    "caption_frame sample_processor [4] = ''a dog''"
    "extract_text_from_frame sample_processor [0] = [''STOP'']"
    "extract_text_from_frame sample_processor [2] = []"
    "extract_text_from_frame sample_processor [4] = []"
    by (simp_all add: caption_frame_def extract_text_from_frame_def sample_processor_def)
  from get_job_result_captions [OF stored owner finished res analysed]
  obtain body where
    "get_job_result ''j1'' ''u1'' ?st = (ResultBody body, 200)"
    "visualCaptions body =
       [(Suc 0, ''a dog | On-screen text: STOP''), (Suc (Suc 0), ''a dog''),
        (Suc (Suc (Suc 0)), ''a dog'')]"
    by (auto simp: shown)
  then show ?thesis
    by (simp add: numeral_2_eq_2 numeral_3_eq_3)
qed


end
